theory Spec2Isabelle
  imports Complex_Main
begin

section \<open>Numeric model\<close>

text \<open>
  The engine of \<^verbatim>\<open>lib/audio/python_processor.py\<close> computes on numpy arrays of
  floats. Finite floats are idealised as reals: rounding is outside the model. Where the
  source can leave the finite values (a division by a norm that is zero, a mean over no
  element), the non-finite results are values of their own (\<open>npfloat\<close> below, or \<open>None\<close>
  for a NaN entry of the segment similarity matrix). The matcher is modelled on finite
  inputs. A vector is a list, a 2-D array is the list of its rows. A function of the
  external toolkits (\<^verbatim>\<open>fastdtw\<close>, the \<^verbatim>\<open>librosa\<close> extractors, the random generator)
  is a parameter of the function that calls it.
\<close>

type_synonym vec = "real list"
type_synonym matrix = "real list list"

datatype py_error = ValueError | IndexError | ZeroDivisionError | AlignmentError

definition nrows :: "'a list list \<Rightarrow> nat" where
  "nrows m = length m"

text \<open>\<^verbatim>\<open>a.shape[1]\<close> of \<^verbatim>\<open>np.array(rows)\<close>: an empty list of rows is the 1-D array
  of shape \<^verbatim>\<open>(0,)\<close>, whose shape has no second entry.\<close>

definition shape1 :: "'a list list \<Rightarrow> py_error + nat" where
  "shape1 m = (case m of [] \<Rightarrow> Inl IndexError | r # _ \<Rightarrow> Inr (length r))"

text \<open>\<^verbatim>\<open>np.dot\<close> of two 1-D arrays: the lengths must agree.\<close>

definition dot :: "vec \<Rightarrow> vec \<Rightarrow> py_error + real" where
  "dot u v = (if length u = length v then Inr (sum_list (map2 (*) u v)) else Inl ValueError)"

definition l2norm :: "vec \<Rightarrow> real" where
  "l2norm v = sqrt (sum_list (map (\<lambda>x. x * x) v))"

text \<open>\<^verbatim>\<open>np.max\<close> of a 1-D array: raises on no element.\<close>

fun list_max :: "real list \<Rightarrow> py_error + real" where
  "list_max [] = Inl ValueError"
| "list_max (x # xs) = Inr (fold max xs x)"

text \<open>The slice \<^verbatim>\<open>xs[::k]\<close> for a positive stride.\<close>

definition take_every :: "nat \<Rightarrow> 'a list \<Rightarrow> 'a list" where
  "take_every k xs = map (\<lambda>i. xs ! (i * k)) [0 ..< (length xs + k - 1) div k]"

section \<open>Similarity engine\<close>

subsection \<open>\<^verbatim>\<open>calculate_similarity\<close>\<close>

datatype sim_method = Cosine | Dtw | Combined | OtherMethod

text \<open>
  The body of the \<^verbatim>\<open>try\<close> block of Stage 2. The alignment itself is the external
  \<^verbatim>\<open>fastdtw(seq1, seq2, dist=euclidean)\<close>, a parameter that returns the distance or
  raises. Both matrices are cut down along the time axis by a common stride and handed
  over with time as the leading axis. The distance of two sequences without frames is a
  Python number, so dividing it by \<^verbatim>\<open>max_len * channels = 0\<close> raises.
\<close>

definition dtw_stage ::
  "(vec list \<Rightarrow> vec list \<Rightarrow> py_error + real) \<Rightarrow> matrix \<Rightarrow> matrix \<Rightarrow> py_error + real" where
  "dtw_stage fastdtw sequence1 sequence2 =
     (case shape1 sequence1 of
        Inl e \<Rightarrow> Inl e
      | Inr c1 \<Rightarrow>
     (case shape1 sequence2 of
        Inl e \<Rightarrow> Inl e
      | Inr c2 \<Rightarrow>
         (let step = max 1 (min c1 c2 div 100);
              seq1_subset = map (take_every step) sequence1;
              seq2_subset = map (take_every step) sequence2;
              frames1 = length (take_every step [0 ..< c1]);
              frames2 = length (take_every step [0 ..< c2])
          in (case fastdtw (transpose seq1_subset) (transpose seq2_subset) of
                Inl e \<Rightarrow> Inl e
              | Inr distance \<Rightarrow>
                  (let max_len = max frames1 frames2;
                       denom = max_len * nrows seq1_subset
                   in (if denom = 0 then Inl ZeroDivisionError
                       else (let normalized_dist = 1 - distance / real denom
                             in Inr (max 0 normalized_dist))))))))"

definition calculate_similarity ::
  "(vec list \<Rightarrow> vec list \<Rightarrow> py_error + real) \<Rightarrow> vec \<Rightarrow> vec \<Rightarrow> sim_method \<Rightarrow>
     matrix option \<Rightarrow> matrix option \<Rightarrow> py_error + real" where
  "calculate_similarity fastdtw vector1 vector2 method sequence1 sequence2 =
     (case dot vector1 vector2 of Inl e \<Rightarrow> Inl e | Inr cosine_sim \<Rightarrow>
        (case (method = Cosine, sequence1, sequence2) of
           (False, Some s1, Some s2) \<Rightarrow>
             if method = Dtw \<or> method = Combined then
               (case dtw_stage fastdtw s1 s2 of
                  Inl e \<Rightarrow> Inr cosine_sim
                | Inr dtw_sim \<Rightarrow>
                    if method = Dtw then Inr dtw_sim
                    else Inr (0.4 * cosine_sim + 0.6 * dtw_sim))
             else Inr cosine_sim
         | _ \<Rightarrow> Inr cosine_sim))"

subsection \<open>\<^verbatim>\<open>compare_segments\<close>\<close>

text \<open>
  One entry of the similarity matrix,
  \<^verbatim>\<open>np.dot(ref_seg / norm(ref_seg), q_seg / norm(q_seg))\<close>. numpy does not raise on
  a division by zero: a non-empty segment of norm zero becomes all-NaN, and so does the
  entry (\<open>None\<close>). Segments of different lengths make \<^verbatim>\<open>np.dot\<close> raise.
\<close>

definition seg_cosine :: "vec \<Rightarrow> vec \<Rightarrow> py_error + real option" where
  "seg_cosine ref_seg q_seg =
     (if length ref_seg \<noteq> length q_seg then Inl ValueError
      else if ref_seg = [] then Inr (Some 0)
      else if l2norm ref_seg = 0 \<or> l2norm q_seg = 0 then Inr None
      else Inr (Some (sum_list (map2 (*) (map (\<lambda>x. x / l2norm ref_seg) ref_seg)
                                          (map (\<lambda>x. x / l2norm q_seg) q_seg)))))"

fun sequence_err :: "(py_error + 'a) list \<Rightarrow> py_error + 'a list" where
  "sequence_err [] = Inr []"
| "sequence_err (x # xs) =
     (case x of Inl e \<Rightarrow> Inl e
      | Inr v \<Rightarrow> (case sequence_err xs of Inl e \<Rightarrow> Inl e | Inr vs \<Rightarrow> Inr (v # vs)))"

definition build_sim_matrix :: "vec list \<Rightarrow> vec list \<Rightarrow> py_error + real option list list" where
  "build_sim_matrix reference query =
     sequence_err (map (\<lambda>ref_seg. sequence_err (map (seg_cosine ref_seg) query)) reference)"

text \<open>The inner loop over the reference segments: \<open>(best_sim, best_idx)\<close> starts at
  \<open>(-1, -1)\<close>; a NaN entry never compares greater.\<close>

definition best_step ::
  "real option list list \<Rightarrow> nat set \<Rightarrow> nat \<Rightarrow> real \<times> nat option \<Rightarrow> nat \<Rightarrow> real \<times> nat option" where
  "best_step sim_matrix used_indices j best i =
     (case sim_matrix ! i ! j of
        None \<Rightarrow> best
      | Some s \<Rightarrow> if i \<notin> used_indices \<and> s > fst best then (s, Some i) else best)"

definition find_best :: "real option list list \<Rightarrow> nat set \<Rightarrow> nat \<Rightarrow> real \<times> nat option" where
  "find_best sim_matrix used_indices j =
     foldl (best_step sim_matrix used_indices j) (-1, None) [0 ..< length sim_matrix]"

definition match_step ::
  "real option list list \<Rightarrow> real list \<times> nat set \<Rightarrow> nat \<Rightarrow> real list \<times> nat set" where
  "match_step sim_matrix st j =
     (case find_best sim_matrix (snd st) j of
        (best_sim, Some best_idx) \<Rightarrow> (fst st @ [best_sim], insert best_idx (snd st))
      | (_, None) \<Rightarrow> st)"

definition mean :: "real list \<Rightarrow> real" where
  "mean xs = sum_list xs / real (length xs)"

definition compare_segments :: "vec list \<Rightarrow> vec list \<Rightarrow> py_error + real" where
  "compare_segments segments1 segments2 =
     (if segments1 = [] \<or> segments2 = [] then Inr 0
      else
        let (reference, query) =
              (if length segments1 \<ge> length segments2 then (segments1, segments2)
               else (segments2, segments1))
        in (case build_sim_matrix reference query of
              Inl e \<Rightarrow> Inl e
            | Inr sim_matrix \<Rightarrow>
                let similarities =
                      fst (foldl (match_step sim_matrix) ([], {}) [0 ..< length query])
                in Inr (if similarities \<noteq> [] then mean similarities else 0)))"

subsection \<open>\<^verbatim>\<open>two_stage_matcher\<close>\<close>

record sample =
  feature_vector :: vec
  sequence_features :: matrix
  segments :: "vec list"

text \<open>The two shapes of the result dictionary.\<close>

datatype match_result =
    Stage1Result (similarity: real) (method_tag: string) (stage: nat)
  | FullResult (similarity: real) (cosine_similarity: real) (dtw_similarity: real)
      (segment_similarity: "real option") (method_tag: string) (stage: nat)

text \<open>The calls the body of the matcher makes, in the order it makes them.\<close>

datatype call = CallCosine | CallAlignment | CallCompareSegments

definition two_stage_matcher ::
  "(vec list \<Rightarrow> vec list \<Rightarrow> py_error + real) \<Rightarrow> sample \<Rightarrow> sample \<Rightarrow>
     call list \<times> (py_error + match_result)" where
  "two_stage_matcher fastdtw sample1 sample2 =
     (let vector1 = feature_vector sample1; vector2 = feature_vector sample2 in
      case calculate_similarity fastdtw vector1 vector2 Cosine None None of
        Inl e \<Rightarrow> ([CallCosine], Inl e)
      | Inr cosine_sim \<Rightarrow>
          if cosine_sim < 0.5 then
            ([CallCosine], Inr (Stage1Result cosine_sim ''cosine_only'' 1))
          else
            (case calculate_similarity fastdtw vector1 vector2 Combined
                    (Some (sequence_features sample1)) (Some (sequence_features sample2)) of
               Inl e \<Rightarrow> ([CallCosine, CallAlignment], Inl e)
             | Inr combined_sim \<Rightarrow>
                 if segments sample1 \<noteq> [] \<and> segments sample2 \<noteq> [] then
                   (case compare_segments (segments sample1) (segments sample2) of
                      Inl e \<Rightarrow> ([CallCosine, CallAlignment, CallCompareSegments], Inl e)
                    | Inr segment_sim \<Rightarrow>
                        ([CallCosine, CallAlignment, CallCompareSegments],
                         Inr (FullResult (0.3 * combined_sim + 0.7 * segment_sim)
                                cosine_sim combined_sim
                                (if segment_sim > 0 then Some segment_sim else None)
                                ''full'' (if segment_sim > 0 then 3 else 2))))
                 else
                   ([CallCosine, CallAlignment],
                    Inr (FullResult combined_sim cosine_sim combined_sim None ''full'' 2))))"

section \<open>Ranking (\<^verbatim>\<open>process-recitation\<close> handler)\<close>

record reciter =
  reciter_id :: string
  reciter_name :: string
  reciter_style :: string
  reciter_vector :: vec

record match_entry =
  match_id :: string
  match_name :: string
  match_style :: string
  similarity_score :: real
  aspect_scores :: "(string \<times> real) list"

text \<open>The seven aspect scores of one candidate; \<open>uniform\<close> is the stream of draws of
  \<^verbatim>\<open>np.random.uniform(0.9, 1.1)\<close> and \<open>k\<close> the number of draws made so far.\<close>

definition aspect_names :: "string list" where
  "aspect_names = [''intonation'', ''pace'', ''melody'', ''strength'', ''articulation'',
                   ''fluency'', ''rhythm'']"

definition make_aspect_scores :: "(nat \<Rightarrow> real) \<Rightarrow> nat \<Rightarrow> real \<Rightarrow> (string \<times> real) list" where
  "make_aspect_scores uniform k score =
     map (\<lambda>(i, a). (a, min 1 (max 0 (score * uniform (k + i)))))
         (enumerate 0 aspect_names)"

text \<open>The loop over the reciters fetched from the store. An exception (a stored vector
  of another dimension) leaves the loop and becomes the error response.\<close>

fun collect_matches ::
  "(vec list \<Rightarrow> vec list \<Rightarrow> py_error + real) \<Rightarrow> (nat \<Rightarrow> real) \<Rightarrow> vec \<Rightarrow>
     reciter list \<Rightarrow> nat \<Rightarrow> match_entry list \<Rightarrow> py_error + match_entry list" where
  "collect_matches fastdtw uniform query [] k matches = Inr matches"
| "collect_matches fastdtw uniform query (r # rs) k matches =
     (case calculate_similarity fastdtw query (reciter_vector r) Combined None None of
        Inl e \<Rightarrow> Inl e
      | Inr score \<Rightarrow>
          collect_matches fastdtw uniform query rs (k + 7)
            (if score > 0.4 then
               matches @ [\<lparr>match_id = reciter_id r, match_name = reciter_name r,
                            match_style = reciter_style r, similarity_score = score,
                            aspect_scores = make_aspect_scores uniform k score\<rparr>]
             else matches))"

text \<open>\<^verbatim>\<open>matches.sort(key=..., reverse=True)\<close> is a stable sort in descending order of
  the key: entries of equal score keep their order, as the insertion sort on the negated
  key does. Then \<^verbatim>\<open>matches[:5]\<close>.\<close>

definition top_matches ::
  "(vec list \<Rightarrow> vec list \<Rightarrow> py_error + real) \<Rightarrow> (nat \<Rightarrow> real) \<Rightarrow> vec \<Rightarrow>
     reciter list \<Rightarrow> py_error + match_entry list" where
  "top_matches fastdtw uniform query reciters =
     (case collect_matches fastdtw uniform query reciters 0 [] of
        Inl e \<Rightarrow> Inl e
      | Inr matches \<Rightarrow> Inr (take 5 (sort_key (\<lambda>m. - similarity_score m) matches)))"

section \<open>Extractors\<close>

subsection \<open>numpy reductions and division\<close>

datatype npfloat = Fin real | PosInf | NegInf | NaN

text \<open>\<^verbatim>\<open>np.mean\<close> and \<^verbatim>\<open>np.std\<close> of finite data: over no element they warn and
  give NaN.\<close>

definition np_mean :: "real list \<Rightarrow> npfloat" where
  "np_mean xs = (if xs = [] then NaN else Fin (mean xs))"

definition std :: "real list \<Rightarrow> real" where
  "std xs = sqrt (mean (map (\<lambda>x. (x - mean xs) * (x - mean xs)) xs))"

definition np_std :: "real list \<Rightarrow> npfloat" where
  "np_std xs = (if xs = [] then NaN else Fin (std xs))"

fun is_fin :: "npfloat \<Rightarrow> bool" where
  "is_fin (Fin x) = True"
| "is_fin _ = False"

fun fin_val :: "npfloat \<Rightarrow> real" where
  "fin_val (Fin x) = x"
| "fin_val _ = 0"

text \<open>\<^verbatim>\<open>np.linalg.norm\<close> of a 1-D array: NaN if an entry is NaN, else infinite if an
  entry is infinite.\<close>

definition np_norm :: "npfloat list \<Rightarrow> npfloat" where
  "np_norm v =
     (if NaN \<in> set v then NaN
      else if PosInf \<in> set v \<or> NegInf \<in> set v then PosInf
      else Fin (l2norm (map fin_val v)))"

text \<open>Float division as numpy does it: no exception, \<open>0/0\<close> is NaN and \<open>x/0\<close> is
  infinite. The divisor zero is taken as \<open>+0\<close> (the only divisor here is a norm).\<close>

fun np_div :: "npfloat \<Rightarrow> npfloat \<Rightarrow> npfloat" where
  "np_div NaN _ = NaN"
| "np_div _ NaN = NaN"
| "np_div (Fin x) (Fin y) =
     (if y \<noteq> 0 then Fin (x / y) else if x = 0 then NaN else if x > 0 then PosInf else NegInf)"
| "np_div (Fin x) _ = Fin 0"
| "np_div PosInf (Fin y) = (if y \<ge> 0 then PosInf else NegInf)"
| "np_div NegInf (Fin y) = (if y \<ge> 0 then NegInf else PosInf)"
| "np_div _ _ = NaN"

subsection \<open>\<^verbatim>\<open>segment_audio\<close>\<close>

text \<open>
  Modelled from the spec: \<^verbatim>\<open>librosa.effects.split(y, top_db=30)\<close> is not part of the
  repository. The spec has the segmenter detect silence in the raw buffer using an energy
  threshold, the top 30 dB below the peak defining what is non-silent. The toolkit decides this
  per analysis frame. A buffer of \<open>n\<close> samples has \<open>1 + n div 512\<close> centred frames of hop
  512; \<open>frame_rms y t\<close> is the energy of frame \<open>t\<close>, an external measurement. Amplitudes
  are clamped from below at \<open>amin\<close> before the decibel scale is taken, relative to the
  largest frame energy, and a frame is non-silent when it lies less than 30 dB below that
  peak: written without the logarithm, when 1000 times its clamped power exceeds the
  clamped peak power. Each maximal run of non-silent frames is one interval, in sample
  positions cut at the length of the buffer.
\<close>

definition amin :: real where
  "amin = 1 / 100000"

definition frame_count :: "nat \<Rightarrow> nat" where
  "frame_count n = 1 + n div 512"

definition nonsilent_frames :: "(vec \<Rightarrow> nat \<Rightarrow> real) \<Rightarrow> vec \<Rightarrow> py_error + bool list" where
  "nonsilent_frames frame_rms y =
     (let mse = map (\<lambda>t. \<bar>frame_rms y t\<bar>) [0 ..< frame_count (length y)]
      in (case list_max mse of
            Inl e \<Rightarrow> Inl e
          | Inr ref_value \<Rightarrow>
              Inr (map (\<lambda>m. 1000 * max (amin * amin) (m * m) >
                              max (amin * amin) (ref_value * ref_value)) mse)))"

text \<open>The maximal runs of non-silent frames, as pairs of first frame and frame after the
  last; \<open>i\<close> is the position of the next frame and the third argument the start of the
  run that is open.\<close>

fun frame_runs :: "bool list \<Rightarrow> nat \<Rightarrow> nat option \<Rightarrow> (nat \<times> nat) list" where
  "frame_runs [] i None = []"
| "frame_runs [] i (Some a) = [(a, i)]"
| "frame_runs (b # bs) i None =
     (if b then frame_runs bs (Suc i) (Some i) else frame_runs bs (Suc i) None)"
| "frame_runs (b # bs) i (Some a) =
     (if b then frame_runs bs (Suc i) (Some a) else (a, i) # frame_runs bs (Suc i) None)"

definition effects_split :: "(vec \<Rightarrow> nat \<Rightarrow> real) \<Rightarrow> vec \<Rightarrow> py_error + (nat \<times> nat) list" where
  "effects_split frame_rms y =
     (case nonsilent_frames frame_rms y of
        Inl e \<Rightarrow> Inl e
      | Inr non_silent \<Rightarrow>
          Inr (map (\<lambda>(a, b). (min (a * 512) (length y), min (b * 512) (length y)))
                 (frame_runs non_silent 0 None)))"

text \<open>\<open>mfcc13\<close> is \<^verbatim>\<open>librosa.feature.mfcc(..., n_mfcc=13)\<close>, external. The loop appends
  one descriptor per interval that is long enough.\<close>

definition slice :: "'a list \<Rightarrow> nat \<Rightarrow> nat \<Rightarrow> 'a list" where
  "slice y start end = take (end - start) (drop start y)"

fun segment_loop ::
  "(vec \<Rightarrow> matrix) \<Rightarrow> vec \<Rightarrow> real \<Rightarrow> (nat \<times> nat) list \<Rightarrow> npfloat list list \<Rightarrow>
     npfloat list list" where
  "segment_loop mfcc13 y min_length [] segs = segs"
| "segment_loop mfcc13 y min_length ((start, end) # intervals) segs =
     (if real_of_int (int end - int start) > min_length
      then segment_loop mfcc13 y min_length intervals
             (segs @ [map np_mean (mfcc13 (slice y start end))])
      else segment_loop mfcc13 y min_length intervals segs)"

definition segment_audio ::
  "(vec \<Rightarrow> nat \<Rightarrow> real) \<Rightarrow> (vec \<Rightarrow> matrix) \<Rightarrow> vec \<Rightarrow> nat \<Rightarrow> py_error + npfloat list list" where
  "segment_audio frame_rms mfcc13 y sr =
     (case effects_split frame_rms y of
        Inl e \<Rightarrow> Inl e
      | Inr intervals \<Rightarrow>
          (let min_length = real sr * 0.5
           in Inr (segment_loop mfcc13 y min_length intervals [])))"

subsection \<open>\<^verbatim>\<open>extract_pitch_contour\<close>\<close>

text \<open>\<open>pitches\<close> and \<open>magnitudes\<close> are the two arrays of
  \<^verbatim>\<open>librosa.core.piptrack\<close> (frequency bins by frames), of the same shape.\<close>

definition ncols :: "'a list list \<Rightarrow> nat" where
  "ncols m = (case m of [] \<Rightarrow> 0 | r # _ \<Rightarrow> length r)"

definition column :: "matrix \<Rightarrow> nat \<Rightarrow> vec" where
  "column m t = map (\<lambda>row. row ! t) m"

fun argmax_from :: "nat \<Rightarrow> real \<Rightarrow> nat \<Rightarrow> real list \<Rightarrow> nat" where
  "argmax_from best_i best_v i [] = best_i"
| "argmax_from best_i best_v i (x # xs) =
     (if x > best_v then argmax_from i x (Suc i) xs else argmax_from best_i best_v (Suc i) xs)"

text \<open>\<^verbatim>\<open>argmax\<close>: the first position of the maximum; raises on no element.\<close>

definition argmax :: "real list \<Rightarrow> py_error + nat" where
  "argmax xs = (case xs of [] \<Rightarrow> Inl ValueError | x # rest \<Rightarrow> Inr (argmax_from 0 x 1 rest))"

definition pick_pitch :: "matrix \<Rightarrow> matrix \<Rightarrow> nat \<Rightarrow> py_error + real" where
  "pick_pitch pitches magnitudes t =
     (case argmax (column magnitudes t) of
        Inl e \<Rightarrow> Inl e
      | Inr index \<Rightarrow> Inr (pitches ! index ! t))"

definition extract_pitch_contour :: "matrix \<Rightarrow> matrix \<Rightarrow> py_error + vec" where
  "extract_pitch_contour pitches magnitudes =
     (case sequence_err (map (pick_pitch pitches magnitudes) [0 ..< ncols pitches]) of
        Inl e \<Rightarrow> Inl e
      | Inr picked \<Rightarrow>
          (let pitch_contour = map (\<lambda>p. if p \<le> 0 then 0 else p) picked
           in Inr (if pitch_contour = [] \<or> (\<forall>p \<in> set pitch_contour. p = 0)
                   then [0] else pitch_contour)))"

subsection \<open>\<^verbatim>\<open>extract_formants\<close>\<close>

text \<open>\<^verbatim>\<open>range(0, stop, step)\<close> with a positive step.\<close>

definition py_range0 :: "int \<Rightarrow> nat \<Rightarrow> nat list" where
  "py_range0 stop step =
     map (\<lambda>i. i * step) [0 ..< (if stop \<le> 0 then 0 else nat ((stop + int step - 1) div int step))]"

text \<open>\<open>lpc_freqs frame\<close> stands for the linear-prediction analysis of the frame that
  starts at sample \<open>frame\<close>: the ascending frequencies of the stable roots, or \<open>None\<close>
  when the analysis raises (the frame then stays zero). \<open>n\<close> is the length of the
  buffer; the pre-emphasis of line 218 (external) keeps the length and raises on a buffer
  of fewer than two samples. \<^verbatim>\<open>int(sr * 0.025)\<close> and \<^verbatim>\<open>int(sr * 0.01)\<close> are
  written in integers.\<close>

definition extract_formants :: "(nat \<Rightarrow> real list option) \<Rightarrow> nat \<Rightarrow> nat \<Rightarrow> py_error + matrix" where
  "extract_formants lpc_freqs n sr =
     (let n_formants = 3;
          frame_length = sr * 25 div 1000;
          hop_length = sr div 100
      in if n < 2 \<or> hop_length = 0 then Inl ValueError
         else
           (let starts = py_range0 (int n - int frame_length) hop_length
            in Inr (map (\<lambda>j. map (\<lambda>frame.
                            (case lpc_freqs frame of
                               None \<Rightarrow> 0
                             | Some freqs \<Rightarrow> if j < min n_formants (length freqs) then freqs ! j else 0))
                          starts)
                        [0 ..< n_formants])))"

subsection \<open>\<^verbatim>\<open>extract_pause_patterns\<close>\<close>

fun pause_loop :: "bool list \<Rightarrow> nat \<Rightarrow> nat list \<Rightarrow> nat list" where
  "pause_loop [] current_pause pause_lengths =
     (if current_pause > 0 then pause_lengths @ [current_pause] else pause_lengths)"
| "pause_loop (p # ps) current_pause pause_lengths =
     (if p then pause_loop ps (current_pause + 1) pause_lengths
      else if current_pause > 0 then pause_loop ps 0 (pause_lengths @ [current_pause])
      else pause_loop ps current_pause pause_lengths)"

definition pause_features :: "nat list \<Rightarrow> vec" where
  "pause_features pause_lengths =
     (if pause_lengths \<noteq> [] then
        [real (length pause_lengths),
         mean (map real pause_lengths),
         (if length pause_lengths > 1 then std (map real pause_lengths) else 0),
         (if pause_lengths \<noteq> [] then real (fold max (tl pause_lengths) (hd pause_lengths)) else 0)]
      else [0, 0, 0, 0])"

text \<open>\<open>rms\<close> is the energy row of \<^verbatim>\<open>librosa.feature.rms\<close>.\<close>

definition extract_pause_patterns :: "vec \<Rightarrow> py_error + vec" where
  "extract_pause_patterns rms =
     (case list_max rms of
        Inl e \<Rightarrow> Inl e
      | Inr m \<Rightarrow>
          (let threshold = 0.05 * m;
               is_pause = map (\<lambda>r. r < threshold) rms
           in Inr (pause_features (pause_loop is_pause 0 []))))"

section \<open>Aggregator (\<^verbatim>\<open>process_audio\<close>)\<close>

text \<open>What the external toolkit returns for the normalised buffer: its length, the
  cepstral, chroma, mel and tempo matrices (one row per band), the pitch tracker's two
  arrays, the linear-prediction analysis and the energy row.\<close>

record extracted =
  x_len :: nat
  x_mfccs :: matrix
  x_chroma :: matrix
  x_mel_spec :: matrix
  x_tempo :: matrix
  x_pitches :: matrix
  x_magnitudes :: matrix
  x_lpc :: "nat \<Rightarrow> real list option"
  x_rms :: vec

definition sample_rate :: nat where
  "sample_rate = 22050"

text \<open>The concatenation of lines 73 to 83, before normalisation.\<close>

definition raw_feature_vector :: "extracted \<Rightarrow> py_error + npfloat list" where
  "raw_feature_vector x =
     (case extract_pitch_contour (x_pitches x) (x_magnitudes x) of
        Inl e \<Rightarrow> Inl e
      | Inr pitch_contour \<Rightarrow>
     (case extract_formants (x_lpc x) (x_len x) sample_rate of
        Inl e \<Rightarrow> Inl e
      | Inr formants \<Rightarrow>
     (case extract_pause_patterns (x_rms x) of
        Inl e \<Rightarrow> Inl e
      | Inr pause_patterns \<Rightarrow>
          Inr (map np_mean (x_mfccs x) @
               map np_std (x_mfccs x) @
               map np_mean (x_chroma x) @
               take 20 (map np_mean (x_mel_spec x)) @
               take 20 (map np_mean (x_tempo x)) @
               [np_mean pitch_contour] @
               [np_std pitch_contour] @
               map np_mean formants @
               [np_mean pause_patterns]))))"

definition normalize_vector :: "npfloat list \<Rightarrow> npfloat list" where
  "normalize_vector raw = map (\<lambda>x. np_div x (np_norm raw)) raw"

text \<open>The \<^verbatim>\<open>feature_vector\<close> entry of the dictionary \<^verbatim>\<open>process_audio\<close> returns.\<close>

definition process_audio :: "extracted \<Rightarrow> py_error + npfloat list" where
  "process_audio x =
     (case raw_feature_vector x of
        Inl e \<Rightarrow> Inl e
      | Inr raw \<Rightarrow> Inr (normalize_vector raw))"

section \<open>Properties of the similarity engine\<close>

lemma calc_cosine:
  "calculate_similarity fastdtw v1 v2 Cosine s1 s2 = dot v1 v2"
  by (simp add: calculate_similarity_def split: sum.splits)

lemma calc_combined:
  "dot v1 v2 = Inr c \<Longrightarrow>
   calculate_similarity fastdtw v1 v2 Combined (Some q1) (Some q2) =
     Inr (case dtw_stage fastdtw q1 q2 of Inl e \<Rightarrow> c | Inr d \<Rightarrow> 0.4 * c + 0.6 * d)"
  by (simp add: calculate_similarity_def split: sum.splits)

text \<open>The matcher past Stage 1, with the Stage-2 value written out.\<close>

lemma matcher_stage2_cases:
  assumes "dot (feature_vector sample1) (feature_vector sample2) = Inr c" and "\<not> c < 0.5"
  shows "two_stage_matcher fastdtw sample1 sample2 =
     (let combined_sim =
            (case dtw_stage fastdtw (sequence_features sample1) (sequence_features sample2) of
               Inl e \<Rightarrow> c | Inr d \<Rightarrow> 0.4 * c + 0.6 * d)
      in if segments sample1 \<noteq> [] \<and> segments sample2 \<noteq> [] then
           (case compare_segments (segments sample1) (segments sample2) of
              Inl e \<Rightarrow> ([CallCosine, CallAlignment, CallCompareSegments], Inl e)
            | Inr segment_sim \<Rightarrow>
                ([CallCosine, CallAlignment, CallCompareSegments],
                 Inr (FullResult (0.3 * combined_sim + 0.7 * segment_sim) c combined_sim
                        (if segment_sim > 0 then Some segment_sim else None)
                        ''full'' (if segment_sim > 0 then 3 else 2))))
         else ([CallCosine, CallAlignment],
               Inr (FullResult combined_sim c combined_sim None ''full'' 2)))"
  using assms
  by (simp add: two_stage_matcher_def calc_cosine calc_combined Let_def)

text \<open>Small concrete runs used below.\<close>

lemma take_every_1: "take_every (Suc 0) xs = xs"
  by (simp add: take_every_def map_nth)

lemma dtw_stage_unit: "dtw_stage (\<lambda>a b. Inr 0) [[1]] [[1]] = Inr 1"
  by (simp add: dtw_stage_def shape1_def nrows_def take_every_1)

lemma dtw_stage_raises: "dtw_stage (\<lambda>a b. Inl AlignmentError) [[1]] [[1]] = Inl AlignmentError"
  by (simp add: dtw_stage_def shape1_def nrows_def take_every_1)

lemma compare_segments_orthogonal: "compare_segments [[1, 0]] [[0, 1]] = Inr 0"
  by (simp add: compare_segments_def build_sim_matrix_def seg_cosine_def l2norm_def
      match_step_def find_best_def best_step_def mean_def)

lemma compare_segments_same: "compare_segments [[1, 0]] [[1, 0]] = Inr 1"
  by (simp add: compare_segments_def build_sim_matrix_def seg_cosine_def l2norm_def
      match_step_def find_best_def best_step_def mean_def)

text \<open>
  Claim C1. When the dot product of the two fingerprint vectors is below 0.5, the matcher
  returns the Stage-1 result: method \<open>cosine_only\<close>, stage 1, similarity equal to that
  dot product. The only call it makes is the cosine one: neither the alignment nor the
  segment comparison is invoked, whatever the alignment routine, the sequences and the
  segments are.
\<close>

theorem C1_stage1_short_circuit:
  assumes "dot (feature_vector sample1) (feature_vector sample2) = Inr c" and "c < 0.5"
  shows "two_stage_matcher fastdtw sample1 sample2 =
           ([CallCosine], Inr (Stage1Result c ''cosine_only'' 1))"
  using assms by (simp add: two_stage_matcher_def calc_cosine)

theorem C1_stage1_short_circuit_witness:
  "dot [1, 0] [0, 1] = Inr 0 \<and> (0::real) < 0.5 \<and>
   two_stage_matcher (\<lambda>a b. Inr 0)
       \<lparr>feature_vector = [1, 0], sequence_features = [[1]], segments = [[1]]\<rparr>
       \<lparr>feature_vector = [0, 1], sequence_features = [[1]], segments = [[1]]\<rparr> =
     ([CallCosine], Inr (Stage1Result 0 ''cosine_only'' 1))"
proof -
  let ?s1 = "\<lparr>feature_vector = [1, 0], sequence_features = [[1]], segments = [[1]]\<rparr>"
  let ?s2 = "\<lparr>feature_vector = [0, 1], sequence_features = [[1]], segments = [[1]]\<rparr>"
  have d: "dot (feature_vector ?s1) (feature_vector ?s2) = Inr 0"
    by (simp add: dot_def)
  have l: "(0::real) < 0.5" by simp
  show ?thesis using C1_stage1_short_circuit [OF d l] by (simp add: dot_def)
qed

text \<open>The full result when a segment list is empty, and when the segment similarity
  is positive.\<close>

lemma matcher_result_without_segments:
  assumes "dot (feature_vector sample1) (feature_vector sample2) = Inr c" and "\<not> c < 0.5"
    and "segments sample1 = [] \<or> segments sample2 = []"
    and "calculate_similarity fastdtw (feature_vector sample1) (feature_vector sample2) Combined
           (Some (sequence_features sample1)) (Some (sequence_features sample2)) = Inr combined"
  shows "snd (two_stage_matcher fastdtw sample1 sample2) =
           Inr (FullResult combined c combined None ''full'' 2)"
  using assms(3,4)
  by (auto simp add: matcher_stage2_cases [OF assms(1,2)] calc_combined [OF assms(1)])

lemma matcher_result_with_positive_segment_similarity:
  assumes "dot (feature_vector sample1) (feature_vector sample2) = Inr c" and "\<not> c < 0.5"
    and "segments sample1 \<noteq> []" and "segments sample2 \<noteq> []"
    and "compare_segments (segments sample1) (segments sample2) = Inr g" and "g > 0"
    and "calculate_similarity fastdtw (feature_vector sample1) (feature_vector sample2) Combined
           (Some (sequence_features sample1)) (Some (sequence_features sample2)) = Inr combined"
  shows "snd (two_stage_matcher fastdtw sample1 sample2) =
           Inr (FullResult (0.3 * combined + 0.7 * g) c combined (Some g) ''full'' 3)"
  using assms(3-7)
  by (auto simp add: matcher_stage2_cases [OF assms(1,2)] calc_combined [OF assms(1)])

text \<open>
  Claim C2. Past Stage 1 the final similarity is \<open>0.3 * combined + 0.7 * segment_sim\<close>
  when both segment lists are non-empty and the Stage-2 value otherwise. The stage tag
  and the \<open>segment_similarity\<close> field, however, are decided by \<open>segment_sim > 0\<close> and
  not by whether the segments were compared: the two lemmas above give the cases where
  the claim holds. The theorem runs the matcher on two samples whose single segments are
  orthogonal: both lists are non-empty and the comparison is made, yet the result
  reports stage 2 and no segment similarity, with a similarity (0.3) that is not the
  Stage-2 value (1).
\<close>

theorem C2_stage_tag_failing_input:
  "two_stage_matcher (\<lambda>a b. Inr 0)
     \<lparr>feature_vector = [1, 0], sequence_features = [[1]], segments = [[1, 0]]\<rparr>
     \<lparr>feature_vector = [1, 0], sequence_features = [[1]], segments = [[0, 1]]\<rparr> =
   ([CallCosine, CallAlignment, CallCompareSegments],
    Inr (FullResult (3 / 10) 1 1 None ''full'' 2))"
proof -
  let ?s1 = "\<lparr>feature_vector = [1, 0], sequence_features = [[1]], segments = [[1, 0]]\<rparr>"
  let ?s2 = "\<lparr>feature_vector = [1, 0], sequence_features = [[1]], segments = [[0, 1]]\<rparr>"
  have d: "dot (feature_vector ?s1) (feature_vector ?s2) = Inr 1" by (simp add: dot_def)
  have l: "\<not> (1::real) < 0.5" by simp
  show ?thesis
    by (simp add: matcher_stage2_cases [OF d l] dtw_stage_unit compare_segments_orthogonal)
qed

text \<open>
  Claim C3, as stated: when the alignment raises, the matcher returns a similarity equal
  to the Stage-1 cosine. It fails when both samples have segments: with cosine 3/5, an
  alignment that raises and one identical segment each, the Stage-2 value is 3/5 but the
  returned similarity is \<open>0.3 * 3/5 + 0.7 * 1 = 22/25\<close>.
\<close>

theorem C3_dtw_failure_counterexample:
  "dot [1, 0] [3 / 5, 4 / 5] = Inr (3 / 5) \<and> \<not> (3 / 5 :: real) < 0.5 \<and>
   dtw_stage (\<lambda>a b. Inl AlignmentError) [[1]] [[1]] = Inl AlignmentError \<and>
   snd (two_stage_matcher (\<lambda>a b. Inl AlignmentError)
          \<lparr>feature_vector = [1, 0], sequence_features = [[1]], segments = [[1, 0]]\<rparr>
          \<lparr>feature_vector = [3 / 5, 4 / 5], sequence_features = [[1]], segments = [[1, 0]]\<rparr>) =
     Inr (FullResult (22 / 25) (3 / 5) (3 / 5) (Some 1) ''full'' 3) \<and>
   (22 / 25 :: real) \<noteq> 3 / 5"
proof -
  let ?s1 = "\<lparr>feature_vector = [1, 0], sequence_features = [[1]], segments = [[1, 0]]\<rparr>"
  let ?s2 = "\<lparr>feature_vector = [3 / 5, 4 / 5], sequence_features = [[1]], segments = [[1, 0]]\<rparr>"
  have d: "dot (feature_vector ?s1) (feature_vector ?s2) = Inr (3 / 5)" by (simp add: dot_def)
  have l: "\<not> (3 / 5 :: real) < 0.5" by simp
  have "snd (two_stage_matcher (\<lambda>a b. Inl AlignmentError) ?s1 ?s2) =
          Inr (FullResult (22 / 25) (3 / 5) (3 / 5) (Some 1) ''full'' 3)"
    by (simp add: matcher_stage2_cases [OF d l] dtw_stage_raises compare_segments_same Let_def)
  with d l show ?thesis by (simp add: dtw_stage_raises)
qed

text \<open>
  Claim C3, amended. When the Stage-1 cosine is at least 0.5 and the alignment raises,
  the error is absorbed and the Stage-2 value is the Stage-1 cosine. The matcher then
  returns that cosine as its similarity when either segment list is empty, and
  \<open>0.3 * cosine + 0.7 * segment_sim\<close> when both lists are non-empty and the segment
  comparison returns \<open>segment_sim\<close>; in both cases the field \<open>dtw_similarity\<close> holds the
  cosine.
\<close>

theorem C3_dtw_failure_falls_back_to_cosine:
  assumes "dot (feature_vector sample1) (feature_vector sample2) = Inr c"
    and "\<not> c < 0.5"
    and "dtw_stage fastdtw (sequence_features sample1) (sequence_features sample2) = Inl e"
  shows "calculate_similarity fastdtw (feature_vector sample1) (feature_vector sample2) Combined
           (Some (sequence_features sample1)) (Some (sequence_features sample2)) = Inr c \<and>
         (segments sample1 = [] \<or> segments sample2 = [] \<longrightarrow>
            snd (two_stage_matcher fastdtw sample1 sample2) =
              Inr (FullResult c c c None ''full'' 2)) \<and>
         (\<forall>g. segments sample1 \<noteq> [] \<and> segments sample2 \<noteq> [] \<and>
              compare_segments (segments sample1) (segments sample2) = Inr g \<longrightarrow>
              (\<exists>r. snd (two_stage_matcher fastdtw sample1 sample2) = Inr r \<and>
                   similarity r = 0.3 * c + 0.7 * g \<and> dtw_similarity r = c \<and>
                   cosine_similarity r = c))"
proof (intro conjI allI impI)
  show "calculate_similarity fastdtw (feature_vector sample1) (feature_vector sample2) Combined
           (Some (sequence_features sample1)) (Some (sequence_features sample2)) = Inr c"
    by (simp add: calc_combined [OF assms(1)] assms(3))
next
  assume "segments sample1 = [] \<or> segments sample2 = []"
  then show "snd (two_stage_matcher fastdtw sample1 sample2) =
               Inr (FullResult c c c None ''full'' 2)"
    by (auto simp add: matcher_stage2_cases [OF assms(1,2)] assms(3))
next
  fix g
  assume "segments sample1 \<noteq> [] \<and> segments sample2 \<noteq> [] \<and>
          compare_segments (segments sample1) (segments sample2) = Inr g"
  then show "\<exists>r. snd (two_stage_matcher fastdtw sample1 sample2) = Inr r \<and>
                 similarity r = 0.3 * c + 0.7 * g \<and> dtw_similarity r = c \<and>
                 cosine_similarity r = c"
    by (simp add: matcher_stage2_cases [OF assms(1,2)] assms(3))
qed

theorem C3_dtw_failure_falls_back_to_cosine_witness:
  "snd (two_stage_matcher (\<lambda>a b. Inl AlignmentError)
          \<lparr>feature_vector = [1, 0], sequence_features = [[1]], segments = []\<rparr>
          \<lparr>feature_vector = [3 / 5, 4 / 5], sequence_features = [[1]], segments = [[1, 0]]\<rparr>) =
     Inr (FullResult (3 / 5) (3 / 5) (3 / 5) None ''full'' 2) \<and>
   (\<exists>r. snd (two_stage_matcher (\<lambda>a b. Inl AlignmentError)
          \<lparr>feature_vector = [1, 0], sequence_features = [[1]], segments = [[1, 0]]\<rparr>
          \<lparr>feature_vector = [3 / 5, 4 / 5], sequence_features = [[1]], segments = [[1, 0]]\<rparr>) = Inr r \<and>
        similarity r = 0.3 * (3 / 5) + 0.7 * 1 \<and> dtw_similarity r = 3 / 5)"
proof -
  let ?f = "\<lambda>(a :: vec list) (b :: vec list). (Inl AlignmentError :: py_error + real)"
  let ?s0 = "\<lparr>feature_vector = [1, 0], sequence_features = [[1]], segments = []\<rparr>"
  let ?s1 = "\<lparr>feature_vector = [1, 0], sequence_features = [[1]], segments = [[1, 0]]\<rparr>"
  let ?s2 = "\<lparr>feature_vector = [3 / 5, 4 / 5], sequence_features = [[1]], segments = [[1, 0]]\<rparr>"
  have l: "\<not> (3 / 5 :: real) < 0.5" by simp
  have d0: "dot (feature_vector ?s0) (feature_vector ?s2) = Inr (3 / 5)" by (simp add: dot_def)
  have d1: "dot (feature_vector ?s1) (feature_vector ?s2) = Inr (3 / 5)" by (simp add: dot_def)
  have a0: "dtw_stage ?f (sequence_features ?s0) (sequence_features ?s2) = Inl AlignmentError"
    by (simp add: dtw_stage_raises)
  have a1: "dtw_stage ?f (sequence_features ?s1) (sequence_features ?s2) = Inl AlignmentError"
    by (simp add: dtw_stage_raises)
  have c1: "compare_segments (segments ?s1) (segments ?s2) = Inr 1"
    by (simp add: compare_segments_same)
  from C3_dtw_failure_falls_back_to_cosine [OF d0 l a0]
  have first: "snd (two_stage_matcher ?f ?s0 ?s2) =
                 Inr (FullResult (3 / 5) (3 / 5) (3 / 5) None ''full'' 2)"
    by simp
  from C3_dtw_failure_falls_back_to_cosine [OF d1 l a1] c1
  have second: "\<exists>r. snd (two_stage_matcher ?f ?s1 ?s2) = Inr r \<and>
        similarity r = 0.3 * (3 / 5) + 0.7 * 1 \<and> dtw_similarity r = 3 / 5"
    by auto
  from first second show ?thesis by blast
qed

text \<open>
  Claim C10. In every full result the field \<open>dtw_similarity\<close> holds the Stage-2 value of
  \<^verbatim>\<open>calculate_similarity\<close>: \<open>0.4 * cosine + 0.6 * dtw_sim\<close> when the alignment returns
  the score \<open>dtw_sim\<close>, and the plain cosine when the alignment raised; it is never the
  alignment score alone. The field \<open>cosine_similarity\<close> holds the Stage-1 value.
\<close>

theorem C10_dtw_similarity_is_combined:
  assumes "dot (feature_vector sample1) (feature_vector sample2) = Inr c"
    and "\<not> c < 0.5"
    and "two_stage_matcher fastdtw sample1 sample2 = (calls, Inr r)"
  shows "cosine_similarity r = c \<and>
         dtw_similarity r =
           (case dtw_stage fastdtw (sequence_features sample1) (sequence_features sample2) of
              Inl e \<Rightarrow> c
            | Inr dtw_sim \<Rightarrow> 0.4 * c + 0.6 * dtw_sim)"
  using assms(3) unfolding matcher_stage2_cases [OF assms(1,2)]
  by (auto simp add: Let_def split: if_splits sum.splits)

theorem C10_dtw_similarity_is_combined_witness:
  "two_stage_matcher (\<lambda>a b. Inr (1 / 2))
     \<lparr>feature_vector = [1, 0], sequence_features = [[1]], segments = []\<rparr>
     \<lparr>feature_vector = [3 / 5, 4 / 5], sequence_features = [[1]], segments = []\<rparr> =
     ([CallCosine, CallAlignment], Inr (FullResult (27 / 50) (3 / 5) (27 / 50) None ''full'' 2)) \<and>
   dtw_stage (\<lambda>a b. Inr (1 / 2)) [[1]] [[1]] = Inr (1 / 2) \<and>
   dtw_similarity (FullResult (27 / 50) (3 / 5) (27 / 50) None ''full'' 2) =
     0.4 * (3 / 5) + 0.6 * (1 / 2)"
proof -
  let ?f = "\<lambda>(a :: vec list) (b :: vec list). (Inr (1 / 2) :: py_error + real)"
  let ?s1 = "\<lparr>feature_vector = [1, 0], sequence_features = [[1]], segments = []\<rparr>"
  let ?s2 = "\<lparr>feature_vector = [3 / 5, 4 / 5], sequence_features = [[1]], segments = []\<rparr>"
  have d: "dot (feature_vector ?s1) (feature_vector ?s2) = Inr (3 / 5)" by (simp add: dot_def)
  have l: "\<not> (3 / 5 :: real) < 0.5" by simp
  have a: "dtw_stage ?f [[1]] [[1]] = Inr (1 / 2)"
    by (simp add: dtw_stage_def shape1_def nrows_def take_every_1)
  have m: "two_stage_matcher ?f ?s1 ?s2 =
             ([CallCosine, CallAlignment],
              Inr (FullResult (27 / 50) (3 / 5) (27 / 50) None ''full'' 2))"
    by (simp add: matcher_stage2_cases [OF d l] a Let_def)
  show ?thesis using C10_dtw_similarity_is_combined [OF d l m] m a by simp
qed

section \<open>Properties of the ranking\<close>

lemma collect_matches_above_threshold:
  "collect_matches fastdtw uniform query reciters k matches = Inr out \<Longrightarrow>
   \<forall>m \<in> set matches. similarity_score m > 0.4 \<Longrightarrow>
   \<forall>m \<in> set out. similarity_score m > 0.4"
proof (induction reciters arbitrary: k matches)
  case Nil
  then show ?case by simp
next
  case (Cons r rs)
  show ?case
  proof (cases "calculate_similarity fastdtw query (reciter_vector r) Combined None None")
    case (Inl e)
    with Cons.prems(1) show ?thesis by simp
  next
    case (Inr score)
    let ?entry = "\<lparr>match_id = reciter_id r, match_name = reciter_name r,
                    match_style = reciter_style r, similarity_score = score,
                    aspect_scores = make_aspect_scores uniform k score\<rparr>"
    let ?next = "if score > 0.4 then matches @ [?entry] else matches"
    from Cons.prems(1) Inr
    have run: "collect_matches fastdtw uniform query rs (k + 7) ?next = Inr out"
      by simp
    have "\<forall>m \<in> set ?next. similarity_score m > 0.4"
      using Cons.prems(2) by simp
    from Cons.IH [OF run this] show ?thesis .
  qed
qed

lemma collect_matches_returns:
  "\<forall>r \<in> set reciters. length (reciter_vector r) = length query \<Longrightarrow>
   \<exists>out. collect_matches fastdtw uniform query reciters k matches = Inr out"
proof (induction reciters arbitrary: k matches)
  case Nil
  then show ?case by simp
next
  case (Cons r rs)
  then show ?case
    by (simp add: calculate_similarity_def dot_def)
qed

text \<open>
  Claim C8. For every query vector and every list of candidate records, the ranking that
  the handler sends holds only entries whose similarity score is strictly greater than
  0.4, is in descending order of the score, and has at most 5 entries. With no candidate
  it is the empty list, and no error. The handler answers with an error only when a
  stored vector has another dimension than the query; when all dimensions agree a ranking
  is returned.
\<close>

theorem C8_ranking_filter_sort_top5:
  "top_matches fastdtw uniform query [] = Inr [] \<and>
   ((\<forall>r \<in> set reciters. length (reciter_vector r) = length query) \<longrightarrow>
      (\<exists>out. top_matches fastdtw uniform query reciters = Inr out)) \<and>
   (\<forall>out. top_matches fastdtw uniform query reciters = Inr out \<longrightarrow>
      (\<forall>m \<in> set out. similarity_score m > 0.4) \<and>
      sorted (map (\<lambda>m. - similarity_score m) out) \<and>
      length out \<le> 5)"
proof (intro conjI allI impI)
  show "top_matches fastdtw uniform query [] = Inr []"
    by (simp add: top_matches_def)
next
  assume "\<forall>r \<in> set reciters. length (reciter_vector r) = length query"
  from collect_matches_returns [OF this]
  obtain ms where "collect_matches fastdtw uniform query reciters 0 [] = Inr ms" by blast
  then show "\<exists>out. top_matches fastdtw uniform query reciters = Inr out"
    by (simp add: top_matches_def)
next
  fix out
  assume a: "top_matches fastdtw uniform query reciters = Inr out"
  then obtain ms where ms: "collect_matches fastdtw uniform query reciters 0 [] = Inr ms"
    and out: "out = take 5 (sort_key (\<lambda>m. - similarity_score m) ms)"
    by (auto simp add: top_matches_def split: sum.splits)
  have "\<forall>m \<in> set ms. similarity_score m > 0.4"
    using collect_matches_above_threshold [OF ms] by simp
  then show "\<forall>m \<in> set out. similarity_score m > 0.4"
    unfolding out by (auto dest: in_set_takeD)
  show "sorted (map (\<lambda>m. - similarity_score m) out)"
    unfolding out by (simp add: take_map [symmetric] sorted_wrt_take del: take_map)
  show "length out \<le> 5"
    unfolding out by simp
qed


theorem C8_ranking_filter_sort_top5_witness:
  "\<exists>out. top_matches (\<lambda>a b. Inr 0) (\<lambda>n. 1) [1, 0]
           [\<lparr>reciter_id = ''a'', reciter_name = ''A'', reciter_style = ''s'', reciter_vector = [3 / 5, 4 / 5]\<rparr>,
            \<lparr>reciter_id = ''b'', reciter_name = ''B'', reciter_style = ''s'', reciter_vector = [0, 1]\<rparr>,
            \<lparr>reciter_id = ''c'', reciter_name = ''C'', reciter_style = ''s'', reciter_vector = [1, 0]\<rparr>] = Inr out \<and>
      map match_id out = [''c'', ''a''] \<and> map similarity_score out = [1, 3 / 5] \<and>
      sorted (map (\<lambda>m. - similarity_score m) out) \<and> length out \<le> 5"
proof -
  let ?f = "\<lambda>(a :: vec list) (b :: vec list). (Inr 0 :: py_error + real)"
  let ?u = "\<lambda>n :: nat. (1 :: real)"
  let ?rs = "[\<lparr>reciter_id = ''a'', reciter_name = ''A'', reciter_style = ''s'', reciter_vector = [3 / 5, 4 / 5]\<rparr>,
            \<lparr>reciter_id = ''b'', reciter_name = ''B'', reciter_style = ''s'', reciter_vector = [0, 1]\<rparr>,
            \<lparr>reciter_id = ''c'', reciter_name = ''C'', reciter_style = ''s'', reciter_vector = [1, 0 :: real]\<rparr>]"
  have len: "\<forall>r \<in> set ?rs. length (reciter_vector r) = length [1, 0 :: real]" by simp
  from C8_ranking_filter_sort_top5 [of ?f ?u "[1, 0]" ?rs] len
  obtain out where out: "top_matches ?f ?u [1, 0] ?rs = Inr out"
    and props: "(\<forall>m \<in> set out. similarity_score m > 0.4) \<and>
      sorted (map (\<lambda>m. - similarity_score m) out) \<and> length out \<le> 5"
    by blast
  have "top_matches ?f ?u [1, 0] ?rs =
          Inr [\<lparr>match_id = ''c'', match_name = ''C'', match_style = ''s'', similarity_score = 1,
                 aspect_scores = make_aspect_scores ?u 14 1\<rparr>,
               \<lparr>match_id = ''a'', match_name = ''A'', match_style = ''s'', similarity_score = 3 / 5,
                 aspect_scores = make_aspect_scores ?u 0 (3 / 5)\<rparr>]"
    by (simp add: top_matches_def calculate_similarity_def dot_def)
  with out have ids: "map match_id out = [''c'', ''a''] \<and> map similarity_score out = [1, 3 / 5]"
    by auto
  show ?thesis
    by (rule exI [of _ out]) (use out props ids in simp)
qed

section \<open>Properties of the extractors\<close>

lemma sequence_err_all_Inr:
  "\<forall>x \<in> set xs. \<exists>v. x = Inr v \<Longrightarrow> \<exists>vs. sequence_err xs = Inr vs"
  by (induction xs) (auto split: sum.splits)

lemma sequence_err_length:
  "sequence_err xs = Inr vs \<Longrightarrow> length vs = length xs"
  by (induction xs arbitrary: vs) (auto split: sum.splits)

lemma pick_pitch_returns:
  "magnitudes \<noteq> [] \<Longrightarrow> \<exists>p. pick_pitch pitches magnitudes t = Inr p"
  by (cases magnitudes) (simp_all add: pick_pitch_def argmax_def column_def)

lemma ncols_pos_nonempty: "t < ncols m \<Longrightarrow> m \<noteq> []"
  by (auto simp add: ncols_def)

lemma picked_exists:
  assumes "length magnitudes = length pitches"
  shows "\<exists>picked. sequence_err (map (pick_pitch pitches magnitudes) [0 ..< ncols pitches]) = Inr picked"
proof (rule sequence_err_all_Inr, rule ballI)
  fix x
  assume "x \<in> set (map (pick_pitch pitches magnitudes) [0 ..< ncols pitches])"
  then obtain t where t: "t < ncols pitches" and x: "x = pick_pitch pitches magnitudes t"
    by auto
  from t have "pitches \<noteq> []" by (rule ncols_pos_nonempty)
  with assms have "magnitudes \<noteq> []" by auto
  from pick_pitch_returns [OF this] x show "\<exists>v. x = Inr v" by simp
qed

lemma clamp_all_zero:
  "(\<forall>p \<in> set (map (\<lambda>p. if p \<le> 0 then 0 else p) xs). p = (0::real)) \<longleftrightarrow>
   (\<forall>q \<in> set xs. q \<le> 0)"
  by (induction xs) auto

text \<open>
  Claim C9, as stated: the contour has one element per analysis frame. It fails when no
  frame has a positive pitch: two frames whose strongest bin has pitch 0 give the
  one-element contour \<open>[0]\<close>.
\<close>

theorem C9_pitch_contour_counterexample:
  "extract_pitch_contour [[0, 0]] [[1, 1]] = Inr [0] \<and> ncols [[0, 0 :: real]] = 2 \<and>
   length [0 :: real] \<noteq> 2"
  by (simp add: extract_pitch_contour_def ncols_def pick_pitch_def argmax_def column_def
      upt_rec [of 0] upt_rec [of 1] numeral_2_eq_2)

text \<open>
  Claim C9, amended. For pitch and magnitude arrays of the same number of bins the
  extractor returns a contour that has at least one element and no negative element.
  When some frame has a positive pitch estimate, the contour has exactly one element
  per analysis frame, the non-positive estimates being replaced by zero in place; when
  no frame has one (or there is no frame), the contour is the single element \<open>[0]\<close>,
  whatever the number of frames.
\<close>

theorem C9_pitch_contour_shape:
  assumes "length magnitudes = length pitches"
  shows "\<exists>picked contour.
           sequence_err (map (pick_pitch pitches magnitudes) [0 ..< ncols pitches]) = Inr picked \<and>
           length picked = ncols pitches \<and>
           extract_pitch_contour pitches magnitudes = Inr contour \<and>
           contour \<noteq> [] \<and> (\<forall>p \<in> set contour. 0 \<le> p) \<and>
           (if \<exists>p \<in> set picked. p > 0
            then contour = map (\<lambda>p. if p \<le> 0 then 0 else p) picked \<and>
                 length contour = ncols pitches
            else contour = [0])"
proof -
  from picked_exists [OF assms] obtain picked where
    picked: "sequence_err (map (pick_pitch pitches magnitudes) [0 ..< ncols pitches]) = Inr picked"
    by blast
  from sequence_err_length [OF picked] have len: "length picked = ncols pitches" by simp
  let ?clamped = "map (\<lambda>p. if p \<le> 0 then 0 else p) picked"
  let ?contour = "if ?clamped = [] \<or> (\<forall>p \<in> set ?clamped. p = 0) then [0] else ?clamped"
  have run: "extract_pitch_contour pitches magnitudes = Inr ?contour"
    by (simp add: extract_pitch_contour_def picked Let_def)
  have nonempty: "?contour \<noteq> []" by simp
  have nonneg: "\<forall>p \<in> set ?contour. 0 \<le> p" by auto
  have zero_iff: "(?clamped = [] \<or> (\<forall>p \<in> set ?clamped. p = 0)) \<longleftrightarrow> \<not> (\<exists>p \<in> set picked. p > 0)"
    unfolding clamp_all_zero by (cases picked) (auto simp add: not_less)
  have shape: "if \<exists>p \<in> set picked. p > 0
               then ?contour = ?clamped \<and> length ?contour = ncols pitches
               else ?contour = [0]"
    using zero_iff len by (simp del: map_eq_conv)
  from picked len run nonempty nonneg shape show ?thesis by blast
qed


lemma picked_example_clamped:
  "sequence_err (map (pick_pitch [[-5, 100]] [[1, 1]]) [0 ..< ncols [[-5, 100 :: real]]]) =
     Inr [-5, 100]"
  by (simp add: ncols_def pick_pitch_def argmax_def column_def
      upt_rec [of 0] upt_rec [of 1] numeral_2_eq_2)

theorem C9_pitch_contour_shape_witness:
  "extract_pitch_contour [[-5, 100]] [[1, 1]] = Inr [0, 100] \<and>
   length [0, 100 :: real] = ncols [[-5, 100 :: real]]"
proof -
  have "length [[1, 1 :: real]] = length [[-5, 100 :: real]]" by simp
  from C9_pitch_contour_shape [OF this] obtain picked contour where
    p: "sequence_err (map (pick_pitch [[-5, 100]] [[1, 1]]) [0 ..< ncols [[-5, 100 :: real]]]) = Inr picked"
    and c: "extract_pitch_contour [[-5, 100]] [[1, 1]] = Inr contour"
    and nonneg: "\<forall>p \<in> set contour. 0 \<le> p"
    and shape: "if \<exists>p \<in> set picked. p > 0
            then contour = map (\<lambda>p. if p \<le> 0 then 0 else p) picked \<and>
                 length contour = ncols [[-5, 100 :: real]]
            else contour = [0]"
    by blast
  from p have picked: "picked = [-5, 100]" by (simp add: picked_example_clamped)
  with shape have "contour = [0, 100] \<and> length contour = ncols [[-5, 100 :: real]]"
    by (simp add: ncols_def)
  with c nonneg show ?thesis by (simp add: ncols_def)
qed

lemma segment_loop_filter_map:
  "segment_loop mfcc13 y min_length intervals segs =
     segs @ map (\<lambda>(start, end). map np_mean (mfcc13 (slice y start end)))
              (filter (\<lambda>(start, end). real_of_int (int end - int start) > min_length) intervals)"
  by (induction intervals arbitrary: segs) auto

text \<open>The silence detection returns for every buffer: the energy row is never empty.\<close>

lemma list_max_returns: "xs \<noteq> [] \<Longrightarrow> \<exists>m. list_max xs = Inr m"
  by (cases xs) simp_all

lemma nonsilent_frames_returns:
  "\<exists>non_silent. nonsilent_frames frame_rms y = Inr non_silent"
proof -
  let ?mse = "map (\<lambda>t. \<bar>frame_rms y t\<bar>) [0 ..< frame_count (length y)]"
  have "?mse \<noteq> []" by (simp add: frame_count_def)
  from list_max_returns [OF this] obtain m where "list_max ?mse = Inr m" by blast
  then show ?thesis by (simp add: nonsilent_frames_def Let_def)
qed

lemma effects_split_returns:
  "\<exists>intervals. effects_split frame_rms y = Inr intervals"
proof -
  from nonsilent_frames_returns obtain ns where "nonsilent_frames frame_rms y = Inr ns"
    by blast
  then show ?thesis by (simp add: effects_split_def)
qed

text \<open>Frames of one and the same energy are all non-silent, whatever that energy is,
  zero included: each of them is at the peak.\<close>

lemma funpow_max_same: "(max c ^^ k) (c :: real) = c"
  by (induction k) simp_all

lemma list_max_replicate: "list_max (replicate (Suc k) c) = Inr c"
  by (simp add: funpow_max_same)

lemma nonsilent_frames_constant:
  assumes "\<forall>t. frame_rms y t = c"
  shows "nonsilent_frames frame_rms y = Inr (replicate (frame_count (length y)) True)"
proof -
  let ?k = "frame_count (length y)"
  have mse: "map (\<lambda>t. \<bar>frame_rms y t\<bar>) [0 ..< ?k] = replicate ?k \<bar>c\<bar>"
    using assms by (simp add: map_replicate_const)
  have k: "?k = Suc (length y div 512)" by (simp add: frame_count_def)
  have peak: "list_max (replicate ?k \<bar>c\<bar>) = Inr \<bar>c\<bar>"
    unfolding k by (rule list_max_replicate)
  define power where "power = max (amin * amin) (\<bar>c\<bar> * \<bar>c\<bar>)"
  have "0 < amin * amin" by (simp add: amin_def)
  then have "0 < power" unfolding power_def by (rule less_max_iff_disj [THEN iffD2, OF disjI1])
  then have "1000 * power > power" by simp
  then have loud: "(1000 * max (amin * amin) (\<bar>c\<bar> * \<bar>c\<bar>) >
                   max (amin * amin) (\<bar>c\<bar> * \<bar>c\<bar>)) = True"
    unfolding power_def by simp
  show ?thesis
    unfolding nonsilent_frames_def Let_def mse peak
    by (simp only: sum.case map_replicate loud)
qed

lemma frame_runs_all_true_open:
  "frame_runs (replicate k True) i (Some a) = [(a, i + k)]"
  by (induction k arbitrary: i) simp_all

lemma frame_runs_all_true:
  "frame_runs (replicate (Suc k) True) i None = [(i, i + Suc k)]"
  by (simp add: frame_runs_all_true_open)

lemma frame_runs_example:
  "frame_runs [True, True, False, True, False] 0 None = [(0, 2), (3, 4)]"
  by simp

lemma effects_split_constant:
  assumes "\<forall>t. frame_rms y t = c"
  shows "effects_split frame_rms y = Inr [(0, length y)]"
proof -
  have k: "frame_count (length y) = Suc (length y div 512)" by (simp add: frame_count_def)
  have cut: "min (Suc (length y div 512) * 512) (length y) = length y"
  proof -
    have "length y < Suc (length y div 512) * 512"
      using div_less_dividend mod_less_divisor [of 512 "length y"]
      by (metis dividend_less_times_div mult.commute mult_Suc_right zero_less_numeral)
    then show ?thesis by simp
  qed
  show ?thesis
    unfolding effects_split_def
      nonsilent_frames_constant [where frame_rms = frame_rms and y = y and c = c, OF assms] k
    by (simp only: frame_runs_all_true sum.case list.map prod.case add_0 mult_0 min_0L cut)
qed

lemma segment_audio_filter_map:
  "effects_split frame_rms y = Inr intervals \<Longrightarrow>
   segment_audio frame_rms mfcc13 y sr =
     Inr (map (\<lambda>(start, end). map np_mean (mfcc13 (slice y start end)))
            (filter (\<lambda>(start, end). real_of_int (int end - int start) > real sr * 0.5)
               intervals))"
  by (simp add: segment_audio_def segment_loop_filter_map)

text \<open>
  Claim C7, as stated. Two of its parts fail. A buffer of 11025 loud samples is one
  non-silent region of exactly 500 ms at 22050 Hz and yields no segment: the test on the
  length is strict. A buffer of 12000 samples that are all zero has zero energy in each
  of its frames, so each frame is at the peak and the whole buffer is reported as one
  non-silent interval: it yields one segment, not none.
\<close>

theorem C7_segmenter_counterexample:
  "real_of_int (int 11025 - int 0) \<ge> real 22050 * 0.5 \<and>
   effects_split (\<lambda>y t. 1) (replicate 11025 1) = Inr [(0, 11025)] \<and>
   segment_audio (\<lambda>y t. 1) (\<lambda>s. replicate 13 [1]) (replicate 11025 1) 22050 = Inr [] \<and>
   effects_split (\<lambda>y t. 0) (replicate 12000 0) = Inr [(0, 12000)] \<and>
   segment_audio (\<lambda>y t. 0) (\<lambda>s. replicate 13 [1]) (replicate 12000 0) 22050 =
     Inr [replicate 13 (Fin 1)]"
proof -
  let ?loud = "\<lambda>(y :: vec) (t :: nat). (1 :: real)"
  let ?zero = "\<lambda>(y :: vec) (t :: nat). (0 :: real)"
  have l: "effects_split ?loud (replicate 11025 1) = Inr [(0, 11025)]"
    using effects_split_constant [of ?loud "replicate 11025 1" 1] by simp
  have z: "effects_split ?zero (replicate 12000 0) = Inr [(0, 12000)]"
    using effects_split_constant [of ?zero "replicate 12000 0" 0] by simp
  have "segment_audio ?loud (\<lambda>s. replicate 13 [1]) (replicate 11025 1) 22050 = Inr []"
    by (simp add: segment_audio_filter_map [OF l])
  moreover
  have "segment_audio ?zero (\<lambda>s. replicate 13 [1]) (replicate 12000 0) 22050 =
          Inr [replicate 13 (Fin 1)]"
    by (simp add: segment_audio_filter_map [OF z] np_mean_def mean_def)
  ultimately show ?thesis using l z by simp
qed

text \<open>
  Claim C7, amended. The segmenter never raises: for every buffer the silence detection
  returns a list of intervals and the segmenter returns a list, possibly empty. That list
  holds one descriptor (the per-band means of the cepstral analysis of the slice) for
  each detected interval whose length exceeds \<open>sr * 0.5\<close> samples, in the order of the
  intervals. A single detected interval gives exactly one segment when it is longer than
  500 ms and none otherwise. A buffer whose frames all have zero energy is detected as
  one interval that spans the buffer, so it gives one segment when the buffer is longer
  than 500 ms and none otherwise. A 13-band analysis gives descriptors of 13 entries.
\<close>

theorem C7_segmenter_keeps_long_intervals:
  "\<exists>intervals.
     effects_split frame_rms y = Inr intervals \<and>
     segment_audio frame_rms mfcc13 y sr =
       Inr (map (\<lambda>(start, end). map np_mean (mfcc13 (slice y start end)))
              (filter (\<lambda>(start, end). real_of_int (int end - int start) > real sr * 0.5)
                 intervals)) \<and>
     (\<forall>start end. intervals = [(start, end)] \<longrightarrow>
        segment_audio frame_rms mfcc13 y sr =
          Inr (if real_of_int (int end - int start) > real sr * 0.5
               then [map np_mean (mfcc13 (slice y start end))] else [])) \<and>
     ((\<forall>t. frame_rms y t = 0) \<longrightarrow>
        intervals = [(0, length y)] \<and>
        segment_audio frame_rms mfcc13 y sr =
          Inr (if real (length y) > real sr * 0.5 then [map np_mean (mfcc13 y)] else [])) \<and>
     ((\<forall>s. length (mfcc13 s) = 13) \<longrightarrow>
        (\<forall>segs. segment_audio frame_rms mfcc13 y sr = Inr segs \<longrightarrow>
           (\<forall>seg \<in> set segs. length seg = 13)))"
proof -
  from effects_split_returns obtain intervals where
    split: "effects_split frame_rms y = Inr intervals"
    by blast
  note run = segment_audio_filter_map [OF split, of mfcc13 sr]
  have one: "\<forall>start end. intervals = [(start, end)] \<longrightarrow>
        segment_audio frame_rms mfcc13 y sr =
          Inr (if real_of_int (int end - int start) > real sr * 0.5
               then [map np_mean (mfcc13 (slice y start end))] else [])"
    by (simp add: run)
  have silent: "(\<forall>t. frame_rms y t = 0) \<longrightarrow>
        intervals = [(0, length y)] \<and>
        segment_audio frame_rms mfcc13 y sr =
          Inr (if real (length y) > real sr * 0.5 then [map np_mean (mfcc13 y)] else [])"
  proof
    assume "\<forall>t. frame_rms y t = 0"
    from effects_split_constant [where frame_rms = frame_rms and y = y and c = 0, OF this] split
    have i: "intervals = [(0, length y)]"
      by simp
    show "intervals = [(0, length y)] \<and>
        segment_audio frame_rms mfcc13 y sr =
          Inr (if real (length y) > real sr * 0.5 then [map np_mean (mfcc13 y)] else [])"
      by (simp add: run i slice_def)
  qed
  have bands: "(\<forall>s. length (mfcc13 s) = 13) \<longrightarrow>
        (\<forall>segs. segment_audio frame_rms mfcc13 y sr = Inr segs \<longrightarrow>
           (\<forall>seg \<in> set segs. length seg = 13))"
    by (auto simp add: run)
  from split run one silent bands show ?thesis by blast
qed

theorem C7_segmenter_keeps_long_intervals_witness:
  "effects_split (\<lambda>y t. 1) (replicate 30000 1) = Inr [(0, 30000)] \<and>
   segment_audio (\<lambda>y t. 1) (\<lambda>s. replicate 13 [real (length s)]) (replicate 30000 1) 22050 =
     Inr [replicate 13 (Fin 30000)] \<and>
   effects_split (\<lambda>y t. 0) (replicate 66150 0) = Inr [(0, 66150)] \<and>
   segment_audio (\<lambda>y t. 0) (\<lambda>s. replicate 13 [real (length s)]) (replicate 66150 0) 22050 =
     Inr [replicate 13 (Fin 66150)] \<and>
   segment_audio (\<lambda>y t. 0) (\<lambda>s. replicate 13 [real (length s)]) (replicate 8000 0) 22050 =
     Inr []"
proof -
  let ?loud = "\<lambda>(y :: vec) (t :: nat). (1 :: real)"
  let ?zero = "\<lambda>(y :: vec) (t :: nat). (0 :: real)"
  let ?mfcc = "\<lambda>s :: vec. replicate 13 [real (length s)]"
  have l: "effects_split ?loud (replicate 30000 1) = Inr [(0, 30000)]"
    using effects_split_constant [of ?loud "replicate 30000 1" 1] by simp
  from C7_segmenter_keeps_long_intervals [of ?loud "replicate 30000 1" ?mfcc 22050] l
  have first: "segment_audio ?loud ?mfcc (replicate 30000 1) 22050 =
                 Inr [replicate 13 (Fin 30000)]"
    by (auto simp add: slice_def np_mean_def mean_def)
  have z: "\<forall>t. ?zero (replicate 66150 0) t = 0" by simp
  from C7_segmenter_keeps_long_intervals [of ?zero "replicate 66150 0" ?mfcc 22050] z
  have second: "effects_split ?zero (replicate 66150 0) = Inr [(0, 66150)] \<and>
                segment_audio ?zero ?mfcc (replicate 66150 0) 22050 =
                  Inr [replicate 13 (Fin 66150)]"
    by (auto simp add: np_mean_def mean_def)
  have z': "\<forall>t. ?zero (replicate 8000 0) t = 0" by simp
  from C7_segmenter_keeps_long_intervals [of ?zero "replicate 8000 0" ?mfcc 22050] z'
  have third: "segment_audio ?zero ?mfcc (replicate 8000 0) 22050 = Inr []"
    by auto
  from l first second third show ?thesis by simp
qed

section \<open>Properties of the aggregator\<close>

lemma fold_max_Max: "fold max xs (x :: nat) = Max (set (x # xs))"
  by (rule Max.set_eq_fold [symmetric])

lemma pause_features_format:
  "pause_features pl =
     [real (length pl),
      (if pl = [] then 0 else mean (map real pl)),
      (if length pl < 2 then 0 else std (map real pl)),
      (if pl = [] then 0 else real (Max (set pl)))]"
proof (cases pl)
  case Nil
  then show ?thesis by (simp add: pause_features_def)
next
  case (Cons a as)
  have longest: "fold max (tl pl) (hd pl) = Max (set pl)"
    using Cons fold_max_Max [of as a] by simp
  have fewer: "length pl < 2 \<longleftrightarrow> \<not> length pl > 1" by auto
  show ?thesis
    unfolding pause_features_def longest fewer using Cons by simp
qed

lemma extract_pause_patterns_returns:
  "rms \<noteq> [] \<Longrightarrow>
   \<exists>m. list_max rms = Inr m \<and>
       extract_pause_patterns rms =
         Inr (pause_features (pause_loop (map (\<lambda>r. r < 0.05 * m) rms) 0 []))"
  by (cases rms) (simp_all add: extract_pause_patterns_def Let_def)

lemma extract_pause_patterns_length:
  "extract_pause_patterns rms = Inr pp \<Longrightarrow> length pp = 4"
  by (auto simp add: extract_pause_patterns_def pause_features_def Let_def split: sum.splits)

lemma pause_example: "extract_pause_patterns [0, 0, 1] = Inr [1, 2, 0, 2]"
  by (simp add: extract_pause_patterns_def pause_features_def mean_def)

lemma raw_feature_vector_last:
  "raw_feature_vector x = Inr fv \<Longrightarrow>
   \<exists>pp. extract_pause_patterns (x_rms x) = Inr pp \<and> last fv = np_mean pp"
  by (auto simp add: raw_feature_vector_def split: sum.splits)

lemma extract_formants_returns:
  "2 \<le> n \<Longrightarrow>
   \<exists>formants. extract_formants lpc n sample_rate = Inr formants \<and> length formants = 3"
  by (simp add: extract_formants_def sample_rate_def Let_def)

lemma extract_formants_rows:
  "extract_formants lpc n sr = Inr formants \<Longrightarrow> length formants = 3"
  by (auto simp add: extract_formants_def Let_def split: if_splits)

lemma upt_0_3: "[0 ..< 3] = [0, 1, 2]"
  by (simp add: upt_rec [of 0] upt_rec [of 1] upt_rec [of 2] numeral_3_eq_3)

lemma formants_1000:
  "extract_formants (\<lambda>i. None) 1000 sample_rate = Inr [[0, 0, 0], [0, 0, 0], [0, 0, 0]]"
  by (simp add: extract_formants_def sample_rate_def py_range0_def Let_def upt_0_3)

lemma formants_short:
  "2 \<le> n \<Longrightarrow> n \<le> 551 \<Longrightarrow> extract_formants lpc n sample_rate = Inr [[], [], []]"
  by (simp add: extract_formants_def sample_rate_def py_range0_def Let_def upt_0_3)

lemma pitch_single: "extract_pitch_contour [[p]] [[m]] = Inr [if p \<le> 0 then 0 else p]"
  by (simp add: extract_pitch_contour_def ncols_def pick_pitch_def argmax_def column_def)

lemma pause_silent: "extract_pause_patterns [0] = Inr [0, 0, 0, 0]"
  by (simp add: extract_pause_patterns_def pause_features_def)

lemma pause_steady: "extract_pause_patterns [1] = Inr [0, 0, 0, 0]"
  by (simp add: extract_pause_patterns_def pause_features_def)

lemma l2norm_zero: "\<forall>v \<in> set xs. v = 0 \<Longrightarrow> l2norm xs = 0"
  by (induction xs) (simp_all add: l2norm_def)

lemma np_norm_zero: "\<forall>v \<in> set fv. v = Fin 0 \<Longrightarrow> np_norm fv = Fin 0"
proof -
  assume z: "\<forall>v \<in> set fv. v = Fin 0"
  then have "NaN \<notin> set fv" "PosInf \<notin> set fv" "NegInf \<notin> set fv" by auto
  moreover from z have "l2norm (map fin_val fv) = 0" by (intro l2norm_zero) auto
  ultimately show ?thesis by (simp add: np_norm_def)
qed

lemma normalize_zero:
  assumes "\<forall>v \<in> set fv. v = Fin 0"
  shows "normalize_vector fv = replicate (length fv) NaN"
proof -
  have "map (\<lambda>x. np_div x (Fin 0)) fv = map (\<lambda>x. NaN) fv"
    using assms by (intro map_cong) auto
  then show ?thesis
    by (simp add: normalize_vector_def np_norm_zero [OF assms] map_replicate_const)
qed

lemma np_div_NaN_right: "np_div v NaN = NaN"
  by (cases v) simp_all

lemma normalize_nan:
  assumes "NaN \<in> set fv"
  shows "normalize_vector fv = replicate (length fv) NaN"
  using assms by (simp add: normalize_vector_def np_norm_def np_div_NaN_right map_replicate_const)

lemma raw_feature_vector_dimension:
  assumes "raw_feature_vector x = Inr fv"
    and "length (x_mfccs x) = 20" and "length (x_chroma x) = 12"
    and "20 \<le> length (x_mel_spec x)" and "20 \<le> length (x_tempo x)"
  shows "length fv = 98"
proof -
  from assms(1) obtain pitch_contour formants pause_patterns where
    f: "extract_formants (x_lpc x) (x_len x) sample_rate = Inr formants" and
    fv: "fv = map np_mean (x_mfccs x) @ map np_std (x_mfccs x) @ map np_mean (x_chroma x) @
              take 20 (map np_mean (x_mel_spec x)) @ take 20 (map np_mean (x_tempo x)) @
              [np_mean pitch_contour] @ [np_std pitch_contour] @ map np_mean formants @
              [np_mean pause_patterns]"
    by (auto simp add: raw_feature_vector_def split: sum.splits)
  from extract_formants_rows [OF f] have "length formants = 3" .
  with assms(2-5) show ?thesis unfolding fv by simp
qed


lemma sumsq_nonneg: "0 \<le> sum_list (map (\<lambda>x :: real. x * x) xs)"
  by (induction xs) simp_all

lemma sumsq_pos: "\<exists>x \<in> set xs. x \<noteq> 0 \<Longrightarrow> 0 < sum_list (map (\<lambda>x :: real. x * x) xs)"
proof (induction xs)
  case Nil
  then show ?case by simp
next
  case (Cons a xs)
  show ?case
  proof (cases "a = 0")
    case True
    with Cons show ?thesis by simp
  next
    case False
    then have "0 < a * a" using not_real_square_gt_zero [of a] by blast
    with sumsq_nonneg [of xs] show ?thesis by simp
  qed
qed

lemma sumsq_scale:
  "sum_list (map (\<lambda>x :: real. x * x) (map (\<lambda>x. x / n) xs)) =
     sum_list (map (\<lambda>x. x * x) xs) / (n * n)"
  by (induction xs) (simp_all add: add_divide_distrib)

lemma l2norm_scaled:
  assumes "\<exists>x \<in> set xs. x \<noteq> 0"
  shows "l2norm xs > 0" and "l2norm (map (\<lambda>x. x / l2norm xs) xs) = 1"
proof -
  let ?s = "sum_list (map (\<lambda>x. x * x) xs)"
  from sumsq_pos [OF assms] have pos: "0 < ?s" .
  then show n: "l2norm xs > 0" by (simp add: l2norm_def)
  have sq: "l2norm xs * l2norm xs = ?s"
    using pos by (simp add: l2norm_def)
  have "sum_list (map (\<lambda>x. x * x) (map (\<lambda>x. x / l2norm xs) xs)) = ?s / ?s"
    by (simp only: sumsq_scale sq)
  also have "\<dots> = 1" using pos by simp
  finally show "l2norm (map (\<lambda>x. x / l2norm xs) xs) = 1"
    by (simp add: l2norm_def)
qed

lemma fin_list: "\<forall>v \<in> set fv. is_fin v \<Longrightarrow> fv = map Fin (map fin_val fv)"
proof (induction fv)
  case Nil
  then show ?case by simp
next
  case (Cons a fv)
  then show ?case by (cases a) simp_all
qed

lemma np_norm_fin: "np_norm (map Fin xs) = Fin (l2norm xs)"
proof -
  have "NaN \<notin> set (map Fin xs)" "PosInf \<notin> set (map Fin xs)" "NegInf \<notin> set (map Fin xs)"
    by auto
  moreover have "map fin_val (map Fin xs) = xs" by (induction xs) simp_all
  ultimately show ?thesis by (simp only: np_norm_def if_False simp_thms)
qed

lemma normalize_fin:
  "l2norm xs > 0 \<Longrightarrow>
   normalize_vector (map Fin xs) = map Fin (map (\<lambda>x. x / l2norm xs) xs)"
  by (simp add: normalize_vector_def np_norm_fin)

lemma normalize_unit_norm:
  assumes fin: "\<forall>v \<in> set fv. is_fin v" and nz: "\<exists>v \<in> set fv. v \<noteq> Fin 0"
  shows "np_norm (normalize_vector fv) = Fin 1"
proof -
  let ?xs = "map fin_val fv"
  from fin_list [OF fin] have fv: "fv = map Fin ?xs" .
  from nz fin have "\<exists>x \<in> set ?xs. x \<noteq> 0"
  proof -
    from nz obtain v where v: "v \<in> set fv" "v \<noteq> Fin 0" by blast
    with fin have "is_fin v" by blast
    with v(2) have "fin_val v \<noteq> 0" by (cases v) simp_all
    with v(1) show ?thesis by auto
  qed
  from l2norm_scaled [OF this] have pos: "l2norm ?xs > 0"
    and one: "l2norm (map (\<lambda>x. x / l2norm ?xs) ?xs) = 1" .
  have "normalize_vector (map Fin ?xs) = map Fin (map (\<lambda>x. x / l2norm ?xs) ?xs)"
    using pos by (rule normalize_fin)
  then have "np_norm (normalize_vector (map Fin ?xs)) = Fin 1"
    by (simp only: np_norm_fin one)
  with fv show ?thesis by simp
qed

text \<open>
  Claim C4, as stated: a raw feature vector that is exactly zero gives an all-zero
  fingerprint. For extractor outputs that are all zero the raw vector is 98 zeros, its
  norm is zero, and the unguarded division makes every component \<open>0/0\<close>: the fingerprint
  is 98 NaNs.
\<close>

theorem C4_zero_vector_counterexample:
  "raw_feature_vector
     \<lparr>x_len = 1000, x_mfccs = replicate 20 [0], x_chroma = replicate 12 [0],
      x_mel_spec = replicate 128 [0], x_tempo = replicate 384 [0],
      x_pitches = [[0]], x_magnitudes = [[0]], x_lpc = (\<lambda>i. None), x_rms = [0]\<rparr> =
     Inr (replicate 98 (Fin 0)) \<and>
   process_audio
     \<lparr>x_len = 1000, x_mfccs = replicate 20 [0], x_chroma = replicate 12 [0],
      x_mel_spec = replicate 128 [0], x_tempo = replicate 384 [0],
      x_pitches = [[0]], x_magnitudes = [[0]], x_lpc = (\<lambda>i. None), x_rms = [0]\<rparr> =
     Inr (replicate 98 NaN) \<and>
   replicate 98 NaN \<noteq> replicate 98 (Fin 0)"
proof -
  let ?x = "\<lparr>x_len = 1000, x_mfccs = replicate 20 [0], x_chroma = replicate 12 [0],
      x_mel_spec = replicate 128 [0], x_tempo = replicate 384 [0],
      x_pitches = [[0]], x_magnitudes = [[0]], x_lpc = (\<lambda>i. None), x_rms = [0]\<rparr>"
  have "\<exists>fv. raw_feature_vector ?x = Inr fv \<and> length fv = 98 \<and> (\<forall>v \<in> set fv. v = Fin 0)"
    by (simp add: raw_feature_vector_def formants_1000 pitch_single pause_silent
        np_mean_def np_std_def std_def mean_def)
  then obtain fv where fv: "raw_feature_vector ?x = Inr fv" and len: "length fv = 98"
    and zero: "\<forall>v \<in> set fv. v = Fin 0"
    by blast
  from len zero have eq: "fv = replicate 98 (Fin 0)" by (intro replicate_eqI) auto
  from fv have "process_audio ?x = Inr (normalize_vector fv)" by (simp add: process_audio_def)
  with normalize_zero [OF zero] len have "process_audio ?x = Inr (replicate 98 NaN)" by simp
  moreover have "replicate 98 NaN \<noteq> replicate 98 (Fin 0)"
    by (simp add: replicate_eq_replicate)
  ultimately show ?thesis using fv eq by simp
qed

text \<open>
  Claim C4, amended. Whenever the raw feature vector is exactly the zero vector, the
  division by its norm is carried out all the same and the fingerprint is all-NaN, of
  the dimension of the raw vector.
\<close>

theorem C4_zero_vector_gives_nan:
  assumes "raw_feature_vector x = Inr fv" and "\<forall>v \<in> set fv. v = Fin 0"
  shows "process_audio x = Inr (replicate (length fv) NaN)"
  using assms(1) normalize_zero [OF assms(2)] by (simp add: process_audio_def)

theorem C4_zero_vector_gives_nan_witness:
  "\<exists>fv. raw_feature_vector
          \<lparr>x_len = 600, x_mfccs = replicate 20 [0, 0], x_chroma = replicate 12 [0, 0],
           x_mel_spec = replicate 128 [0, 0], x_tempo = replicate 384 [0, 0],
           x_pitches = [[0]], x_magnitudes = [[0]], x_lpc = (\<lambda>i. None), x_rms = [0]\<rparr> = Inr fv \<and>
        fv = replicate 98 (Fin 0) \<and>
        process_audio
          \<lparr>x_len = 600, x_mfccs = replicate 20 [0, 0], x_chroma = replicate 12 [0, 0],
           x_mel_spec = replicate 128 [0, 0], x_tempo = replicate 384 [0, 0],
           x_pitches = [[0]], x_magnitudes = [[0]], x_lpc = (\<lambda>i. None), x_rms = [0]\<rparr> =
          Inr (replicate 98 NaN)"
proof -
  let ?x = "\<lparr>x_len = 600, x_mfccs = replicate 20 [0, 0], x_chroma = replicate 12 [0, 0],
           x_mel_spec = replicate 128 [0, 0], x_tempo = replicate 384 [0, 0],
           x_pitches = [[0]], x_magnitudes = [[0]], x_lpc = (\<lambda>i. None), x_rms = [0]\<rparr>"
  have f: "extract_formants (\<lambda>i. None) 600 sample_rate = Inr [[0], [0], [0]]"
    by (simp add: extract_formants_def sample_rate_def py_range0_def Let_def upt_0_3)
  have "\<exists>fv. raw_feature_vector ?x = Inr fv \<and> length fv = 98 \<and> (\<forall>v \<in> set fv. v = Fin 0)"
    by (simp add: raw_feature_vector_def f pitch_single pause_silent
        np_mean_def np_std_def std_def mean_def)
  then obtain fv where fv: "raw_feature_vector ?x = Inr fv" and len: "length fv = 98"
    and zero: "\<forall>v \<in> set fv. v = Fin 0"
    by blast
  from C4_zero_vector_gives_nan [OF fv zero] len
  have "process_audio ?x = Inr (replicate 98 NaN)" by simp
  moreover from len zero have "fv = replicate 98 (Fin 0)" by (intro replicate_eqI) auto
  ultimately show ?thesis using fv by blast
qed

text \<open>
  The fingerprint has 98 entries whenever the cepstral matrix has 20 rows, the chroma
  matrix 12 and the mel and tempo matrices at least 20, whatever the number of frames;
  when the raw vector is finite and not zero, its norm is 1 (exactly, in real
  arithmetic). A buffer of at most 551 samples has no formant frame, so the three formant
  means are means over no element.
\<close>

lemma short_clip_fingerprint:
  assumes "x_len x \<le> 551" and "raw_feature_vector x = Inr fv"
  shows "NaN \<in> set fv" and "process_audio x = Inr (replicate (length fv) NaN)"
proof -
  from assms(2) have two: "2 \<le> x_len x"
    by (auto simp add: raw_feature_vector_def extract_formants_def Let_def
        split: sum.splits if_splits)
  from assms(2) formants_short [OF two assms(1), of "x_lpc x"]
  show nan: "NaN \<in> set fv"
    by (auto simp add: raw_feature_vector_def np_mean_def split: sum.splits)
  from assms(2) normalize_nan [OF nan]
  show "process_audio x = Inr (replicate (length fv) NaN)"
    by (simp add: process_audio_def)
qed

lemma fingerprint_dimension_and_norm:
  assumes "raw_feature_vector x = Inr fv"
    and "length (x_mfccs x) = 20" and "length (x_chroma x) = 12"
    and "20 \<le> length (x_mel_spec x)" and "20 \<le> length (x_tempo x)"
  shows "\<exists>fp. process_audio x = Inr fp \<and> length fp = 98 \<and>
              ((\<forall>v \<in> set fv. is_fin v) \<and> (\<exists>v \<in> set fv. v \<noteq> Fin 0) \<longrightarrow> np_norm fp = Fin 1)"
proof -
  from assms(1) have p: "process_audio x = Inr (normalize_vector fv)"
    by (simp add: process_audio_def)
  have "length (normalize_vector fv) = 98"
    using raw_feature_vector_dimension [OF assms] by (simp add: normalize_vector_def)
  with p show ?thesis by (auto intro: normalize_unit_norm)
qed

text \<open>
  Claim C5. The dimension is 98, and a finite non-zero raw vector gives a fingerprint of
  norm 1 (lemma \<open>fingerprint_dimension_and_norm\<close>). The norm part fails on a clip of at
  most 551 samples (25 ms at 22050 Hz), here 100 samples with one analysis frame: the raw
  vector is not zero (its first entry is 1) but holds the NaN means of the empty formant
  matrix, and the fingerprint is 98 NaNs, whose norm is NaN.
\<close>

theorem C5_short_clip_failing_input:
  "raw_feature_vector
     \<lparr>x_len = 100, x_mfccs = replicate 20 [1], x_chroma = replicate 12 [1],
      x_mel_spec = replicate 128 [1], x_tempo = replicate 384 [1],
      x_pitches = [[100]], x_magnitudes = [[1]], x_lpc = (\<lambda>i. None), x_rms = [1]\<rparr> =
     Inr (replicate 20 (Fin 1) @ replicate 20 (Fin 0) @ replicate 12 (Fin 1) @
          replicate 20 (Fin 1) @ replicate 20 (Fin 1) @
          [Fin 100, Fin 0, NaN, NaN, NaN, Fin 0]) \<and>
   process_audio
     \<lparr>x_len = 100, x_mfccs = replicate 20 [1], x_chroma = replicate 12 [1],
      x_mel_spec = replicate 128 [1], x_tempo = replicate 384 [1],
      x_pitches = [[100]], x_magnitudes = [[1]], x_lpc = (\<lambda>i. None), x_rms = [1]\<rparr> =
     Inr (replicate 98 NaN) \<and>
   np_norm (replicate 98 NaN) = NaN"
proof -
  let ?x = "\<lparr>x_len = 100, x_mfccs = replicate 20 [1], x_chroma = replicate 12 [1],
            x_mel_spec = replicate 128 [1], x_tempo = replicate 384 [1],
            x_pitches = [[100]], x_magnitudes = [[1]], x_lpc = (\<lambda>i. None), x_rms = [1]\<rparr>"
  let ?fv = "replicate 20 (Fin 1) @ replicate 20 (Fin 0) @ replicate 12 (Fin 1) @
          replicate 20 (Fin 1) @ replicate 20 (Fin 1) @
          [Fin 100, Fin 0, NaN, NaN, NaN, Fin 0]"
  have short: "x_len ?x \<le> 551" by simp
  have fv: "raw_feature_vector ?x = Inr ?fv"
    by (simp add: raw_feature_vector_def formants_short pitch_single pause_steady
        np_mean_def np_std_def std_def mean_def)
  have len: "length ?fv = 98" by simp
  from short_clip_fingerprint(2) [OF short fv] len
  have "process_audio ?x = Inr (replicate 98 NaN)" by simp
  moreover have "np_norm (replicate 98 NaN) = NaN" by (simp add: np_norm_def)
  ultimately show ?thesis using fv by simp
qed

text \<open>
  Claim C6, as stated: the last raw component is the mean pause length. For the energy
  row \<open>[0, 0, 1]\<close> there is one pause of two frames: the four statistics are
  \<open>[1, 2, 0, 2]\<close>, the mean pause length is 2, and the last component is 5/4.
\<close>

theorem C6_last_component_counterexample:
  "extract_pause_patterns [0, 0, 1] = Inr [1, 2, 0, 2] \<and>
   map_sum id last
     (raw_feature_vector
        \<lparr>x_len = 1000, x_mfccs = replicate 20 [1], x_chroma = replicate 12 [1],
         x_mel_spec = replicate 128 [1], x_tempo = replicate 384 [1],
         x_pitches = [[100]], x_magnitudes = [[1]], x_lpc = (\<lambda>i. None),
         x_rms = [0, 0, 1]\<rparr>) = Inr (Fin (5 / 4)) \<and>
   (5 / 4 :: real) \<noteq> 2"
  by (simp add: pause_example raw_feature_vector_def formants_1000 pitch_single
      np_mean_def mean_def)

text \<open>
  Claim C6, amended. The pause extractor returns exactly four scalars: the number of
  pauses, the mean pause length, the standard deviation of the pause lengths (0 with
  fewer than two pauses) and the longest pause, all 0 when there is no pause. The last
  component of the raw feature vector is the arithmetic mean of these four scalars.
\<close>

theorem C6_last_component_is_mean_of_pause_statistics:
  assumes "raw_feature_vector x = Inr fv"
  shows "\<exists>m pl. list_max (x_rms x) = Inr m \<and>
           pl = pause_loop (map (\<lambda>r. r < 0.05 * m) (x_rms x)) 0 [] \<and>
           extract_pause_patterns (x_rms x) =
             Inr [real (length pl),
                  (if pl = [] then 0 else mean (map real pl)),
                  (if length pl < 2 then 0 else std (map real pl)),
                  (if pl = [] then 0 else real (Max (set pl)))] \<and>
           last fv =
             Fin ((real (length pl) +
                   (if pl = [] then 0 else mean (map real pl)) +
                   (if length pl < 2 then 0 else std (map real pl)) +
                   (if pl = [] then 0 else real (Max (set pl)))) / 4)"
proof -
  from raw_feature_vector_last [OF assms] obtain pp where
    pp: "extract_pause_patterns (x_rms x) = Inr pp" and l: "last fv = np_mean pp"
    by blast
  from pp have "x_rms x \<noteq> []"
    by (auto simp add: extract_pause_patterns_def)
  from extract_pause_patterns_returns [OF this] obtain m where
    m: "list_max (x_rms x) = Inr m" and
    run: "extract_pause_patterns (x_rms x) =
            Inr (pause_features (pause_loop (map (\<lambda>r. r < 0.05 * m) (x_rms x)) 0 []))"
    by blast
  let ?pl = "pause_loop (map (\<lambda>r. r < 0.05 * m) (x_rms x)) 0 []"
  from pp run have "pp = pause_features ?pl" by simp
  then have fmt: "pp = [real (length ?pl),
                  (if ?pl = [] then 0 else mean (map real ?pl)),
                  (if length ?pl < 2 then 0 else std (map real ?pl)),
                  (if ?pl = [] then 0 else real (Max (set ?pl)))]"
    by (simp only: pause_features_format)
  have "np_mean pp = Fin ((real (length ?pl) +
                   (if ?pl = [] then 0 else mean (map real ?pl)) +
                   (if length ?pl < 2 then 0 else std (map real ?pl)) +
                   (if ?pl = [] then 0 else real (Max (set ?pl)))) / 4)"
    by (subst fmt) (simp add: np_mean_def mean_def add.assoc)
  with l m pp fmt show ?thesis by (intro exI [of _ m] exI [of _ ?pl]) simp
qed

theorem C6_last_component_is_mean_of_pause_statistics_witness:
  "\<exists>fv. raw_feature_vector
           \<lparr>x_len = 1000, x_mfccs = replicate 20 [1], x_chroma = replicate 12 [1],
            x_mel_spec = replicate 128 [1], x_tempo = replicate 384 [1],
            x_pitches = [[100]], x_magnitudes = [[1]], x_lpc = (\<lambda>i. None),
            x_rms = [0, 0, 1]\<rparr> = Inr fv \<and>
        pause_loop (map (\<lambda>r. r < 0.05 * 1) [0, 0, 1 :: real]) 0 [] = [2] \<and>
        extract_pause_patterns [0, 0, 1] = Inr [1, 2, 0, 2] \<and>
        last fv = Fin ((1 + 2 + 0 + 2) / 4)"
proof -
  let ?x = "\<lparr>x_len = 1000, x_mfccs = replicate 20 [1], x_chroma = replicate 12 [1],
            x_mel_spec = replicate 128 [1], x_tempo = replicate 384 [1],
            x_pitches = [[100]], x_magnitudes = [[1]], x_lpc = (\<lambda>i. None),
            x_rms = [0, 0, 1]\<rparr>"
  obtain fv where fv: "raw_feature_vector ?x = Inr fv"
    by (simp add: raw_feature_vector_def formants_1000 pitch_single pause_example)
  from C6_last_component_is_mean_of_pause_statistics [OF fv] obtain m pl where
    m: "list_max (x_rms ?x) = Inr m" and
    pl: "pl = pause_loop (map (\<lambda>r. r < 0.05 * m) (x_rms ?x)) 0 []" and
    l: "last fv =
             Fin ((real (length pl) +
                   (if pl = [] then 0 else mean (map real pl)) +
                   (if length pl < 2 then 0 else std (map real pl)) +
                   (if pl = [] then 0 else real (Max (set pl)))) / 4)"
    by blast
  from m have "m = 1" by simp
  with pl have pl2: "pl = [2]" by simp
  with l have "last fv = Fin ((1 + 2 + 0 + 2) / 4)" by (simp add: mean_def)
  with fv pl2 pl \<open>m = 1\<close> show ?thesis by (simp add: pause_example)
qed

end
